theory Spec2Isabelle
  imports Main "HOL-Library.Sublist" "HOL-Library.AList"
begin

section \<open>The SSR middleware of githubRank: a shallow embedding\<close>

text \<open>
  The program is the NestJS middleware class \<open>SsrMiddleware\<close>: its method \<open>use\<close> handles
  one HTTP request (cache lookup, route bypass, module resolution, prefetch, render, HTML
  assembly, cache population, degradation to a client-rendered shell), and its method
  \<open>clearCache\<close> empties the \<open>ssr:\<close> namespace of the cache.

  Every collaborator the class calls (the cache manager, the file system, \<open>require\<close>, the
  Vite dev server, the prefetch service, the render entry point, the Express response) is an
  explicit parameter or a piece of explicit state. An \<open>await\<close> that rejects and a call that
  throws are the value \<open>Inl e\<close>; the order in which the collaborators are called is kept in a
  trace of events.
\<close>

subsection \<open>JavaScript strings\<close>

text \<open>
  \<open>split_at_first pat s\<close> is the search behind \<open>indexOf\<close>: the text before and after the
  first occurrence of \<open>pat\<close> in \<open>s\<close>, or \<open>None\<close> when there is none.
\<close>

fun split_at_first :: "string \<Rightarrow> string \<Rightarrow> (string \<times> string) option" where
  "split_at_first pat [] = (if pat = [] then Some ([], []) else None)"
| "split_at_first pat (c # cs) =
     (if prefix pat (c # cs) then Some ([], drop (length pat) (c # cs))
      else map_option (\<lambda>(b, a). (c # b, a)) (split_at_first pat cs))"

definition startsWith :: "string \<Rightarrow> string \<Rightarrow> bool" where
  "startsWith s p = prefix p s"

definition includes_str :: "string \<Rightarrow> string \<Rightarrow> bool" where
  "includes_str s p = (split_at_first p s \<noteq> None)"

text \<open>
  \<open>String.prototype.replace\<close> with a string pattern and a string replacement replaces the
  first occurrence only, and expands the replacement's dollar patterns: \<open>$$\<close> is a dollar
  sign, \<open>$&\<close> the matched text, \<open>$`\<close> the text before the match and \<open>$'\<close> the text after it.
  A string pattern has no capture groups, so any other use of \<open>$\<close> stays as it is.
\<close>

fun GetSubstitution :: "string \<Rightarrow> string \<Rightarrow> string \<Rightarrow> string \<Rightarrow> string" where
  "GetSubstitution matched preceding following [] = []"
| "GetSubstitution matched preceding following [c] = [c]"
| "GetSubstitution matched preceding following (c # d # ds) =
     (if c = CHR ''$'' \<and> d = CHR ''$'' then CHR ''$'' # GetSubstitution matched preceding following ds
      else if c = CHR ''$'' \<and> d = CHR ''&'' then matched @ GetSubstitution matched preceding following ds
      else if c = CHR ''$'' \<and> d = CHR 0x60 then preceding @ GetSubstitution matched preceding following ds
      else if c = CHR ''$'' \<and> d = CHR 0x27 then following @ GetSubstitution matched preceding following ds
      else c # GetSubstitution matched preceding following (d # ds))"

definition replace :: "string \<Rightarrow> string \<Rightarrow> string \<Rightarrow> string" where
  "replace s pat rep =
     (case split_at_first pat s of
        None \<Rightarrow> s
      | Some (preceding, following) \<Rightarrow> preceding @ GetSubstitution pat preceding following rep @ following)"

subsection \<open>JSON values and \<open>JSON.stringify\<close>\<close>

text \<open>
  The preload state, the prefetch data and the manifest are JSON values. Numbers are the
  integers that JavaScript prints in plain decimal notation; an object is the list of its
  own properties in enumeration order.
\<close>

datatype json =
    JNull
  | JBool bool
  | JNumber int
  | JString string
  | JArray "json list"
  | JObject "(string \<times> json) list"

definition digit_char :: "nat \<Rightarrow> char" where
  "digit_char n = ''0123456789abcdef'' ! (n mod 16)"

function show_nat :: "nat \<Rightarrow> string" where
  "show_nat n = (if n < 10 then [digit_char n] else show_nat (n div 10) @ [digit_char (n mod 10)])"
  by pat_completeness auto
termination
  by (relation "measure (\<lambda>n. n)") auto

definition show_int :: "int \<Rightarrow> string" where
  "show_int i = (if i < 0 then CHR ''-'' # show_nat (nat (- i)) else show_nat (nat i))"

definition quote_char :: "char \<Rightarrow> string" where
  "quote_char c =
     (if c = CHR 0x22 then [CHR 0x5C, CHR 0x22]
      else if c = CHR 0x5C then [CHR 0x5C, CHR 0x5C]
      else if c = CHR 0x08 then [CHR 0x5C, CHR ''b'']
      else if c = CHR 0x09 then [CHR 0x5C, CHR ''t'']
      else if c = CHR 0x0A then [CHR 0x5C, CHR ''n'']
      else if c = CHR 0x0C then [CHR 0x5C, CHR ''f'']
      else if c = CHR 0x0D then [CHR 0x5C, CHR ''r'']
      else if (of_char c :: nat) < 32
        then [CHR 0x5C, CHR ''u'', CHR ''0'', CHR ''0'',
              digit_char (of_char c div 16), digit_char (of_char c mod 16)]
      else [c])"

definition QuoteJSONString :: "string \<Rightarrow> string" where
  "QuoteJSONString s = CHR 0x22 # concat (map quote_char s) @ [CHR 0x22]"

fun join :: "string \<Rightarrow> string list \<Rightarrow> string" where
  "join sep [] = []"
| "join sep [x] = x"
| "join sep (x # y # ys) = x @ sep @ join sep (y # ys)"

fun stringify :: "json \<Rightarrow> string" where
  "stringify JNull = ''null''"
| "stringify (JBool b) = (if b then ''true'' else ''false'')"
| "stringify (JNumber i) = show_int i"
| "stringify (JString s) = QuoteJSONString s"
| "stringify (JArray xs) = ''['' @ join '','' (map stringify xs) @ '']''"
| "stringify (JObject kvs) =
     ''{'' @ join '','' (map (\<lambda>(k, v). QuoteJSONString k @ '':'' @ stringify v) kvs) @ ''}''"

subsection \<open>Data of the middleware\<close>

datatype error = Error string

record render_context =
  preloadState :: json

record render_result =
  html :: string
  ctx :: render_context
  headTags :: string
  htmlAttrs :: string
  bodyAttrs :: string
  preloadLinks :: string

type_synonym render_fn = "string \<Rightarrow> json \<Rightarrow> json \<Rightarrow> error + render_result"

record request =
  originalUrl :: string
  path :: string

text \<open>
  What the collaborators answer. A field of type \<open>error option\<close> says whether the call
  fails; a field of type \<open>error + 'a\<close> is the call's outcome.
\<close>

record env =
  isProd :: bool
  get_fails :: "string \<Rightarrow> error option"
  set_fails :: "string \<Rightarrow> error option"
  keys_fails :: "error option"
  del_fails :: "string \<Rightarrow> error option"
  manifest_json :: "error + json"
  createServer :: "error option"
  src_index_html :: "error + string"
  transformIndexHtml :: "string \<Rightarrow> string \<Rightarrow> error + string"
  ssrLoadModule_render :: "error + render_fn"
  dist_index_html :: "error + string"
  entry_server_render :: "error + render_fn"
  getPrefetchData :: "string \<Rightarrow> error + json"

datatype event =
    CacheGet string
  | CacheSet string string nat
  | CacheKeys
  | CacheDel string
  | RequireManifest
  | CreateServer
  | ReadSrcIndexHtml
  | TransformIndexHtml string
  | SsrLoadModule
  | ReadDistIndexHtml
  | RequireEntryServer
  | GetPrefetchData string
  | Render string json json
  | Send nat string string
  | Next
  | NextError error
  | SsrFixStacktrace error
  | LogCacheHit
  | LogRenderError error
  | LogMiddlewareError error
  | LogCleared nat
  | LogNoCache
  | LogClearFailed error

text \<open>
  The state: the cache store (key, value and time to live in milliseconds), whether the
  middleware holds a dev server (\<open>this.vite\<close>), what the response object has sent (status,
  content type and body) and the trace, oldest event first.
\<close>

record world =
  cache :: "(string \<times> string \<times> nat) list"
  vite :: bool
  sent :: "(nat \<times> string \<times> string) option"
  trace :: "event list"

definition emit :: "event \<Rightarrow> world \<Rightarrow> world" where
  "emit e w = w\<lparr>trace := trace w @ [e]\<rparr>"

subsection \<open>The collaborators\<close>

definition cacheManager_get :: "env \<Rightarrow> string \<Rightarrow> world \<Rightarrow> (error + string option) \<times> world" where
  "cacheManager_get env key w =
     (case get_fails env key of
        Some e \<Rightarrow> (Inl e, emit (CacheGet key) w)
      | None \<Rightarrow> (Inr (map_option fst (map_of (cache w) key)), emit (CacheGet key) w))"

definition cacheManager_set ::
  "env \<Rightarrow> string \<Rightarrow> string \<Rightarrow> nat \<Rightarrow> world \<Rightarrow> (error + unit) \<times> world" where
  "cacheManager_set env key v ttl w =
     (case set_fails env key of
        Some e \<Rightarrow> (Inl e, emit (CacheSet key v ttl) w)
      | None \<Rightarrow>
          (Inr (), emit (CacheSet key v ttl) (w\<lparr>cache := AList.update key (v, ttl) (cache w)\<rparr>)))"



text \<open>
  \<open>res.status(200).set({'Content-Type': 'text/html'}).end(body)\<close>. Node's \<open>setHeader\<close>
  throws \<open>ERR_HTTP_HEADERS_SENT\<close> on a response that was sent already.
\<close>

definition res_send :: "nat \<Rightarrow> string \<Rightarrow> string \<Rightarrow> world \<Rightarrow> (error + unit) \<times> world" where
  "res_send status ctype body w =
     (case sent w of
        Some r \<Rightarrow> (Inl (Error ''ERR_HTTP_HEADERS_SENT''), w)
      | None \<Rightarrow> (Inr (), emit (Send status ctype body) (w\<lparr>sent := Some (status, ctype, body)\<rparr>)))"

subsection \<open>Sequencing, \<open>await\<close> and \<open>try\<close>/\<open>catch\<close>\<close>

type_synonym 'a io = "world \<Rightarrow> (error + 'a) \<times> world"

definition return_io :: "'a \<Rightarrow> 'a io" where
  "return_io x = (\<lambda>w. (Inr x, w))"

definition bind_io :: "'a io \<Rightarrow> ('a \<Rightarrow> 'b io) \<Rightarrow> 'b io" where
  "bind_io m f = (\<lambda>w. case m w of (Inl e, w') \<Rightarrow> (Inl e, w') | (Inr x, w') \<Rightarrow> f x w')"

definition try_catch :: "'a io \<Rightarrow> (error \<Rightarrow> 'a io) \<Rightarrow> 'a io" where
  "try_catch m h = (\<lambda>w. case m w of (Inl e, w') \<Rightarrow> h e w' | (Inr x, w') \<Rightarrow> (Inr x, w'))"

definition call :: "event \<Rightarrow> error + 'a \<Rightarrow> 'a io" where
  "call ev outcome = (\<lambda>w. (outcome, emit ev w))"

definition log :: "event \<Rightarrow> unit io" where
  "log ev = (\<lambda>w. (Inr (), emit ev w))"

subsection \<open>The request pipeline\<close>

text \<open>Lines 99 to 106: the six replacements, in the order of the source.\<close>

definition assemble :: "string \<Rightarrow> render_result \<Rightarrow> string" where
  "assemble template r =
     (let preloadStateScript =
            ''<script>window.__PRELOAD_STATE__ = '' @ stringify (preloadState (ctx r)) @ ''</script>''
      in replace (replace (replace (replace (replace (replace template
           ''<!--preload-links-->'' (preloadLinks r))
           ''<html>'' (''<html '' @ htmlAttrs r @ ''>''))
           ''<body>'' (''<body '' @ bodyAttrs r @ ''>''))
           ''</head>'' (headTags r @ ''</head>''))
           ''<!--ssr-outlet-->'' (html r))
           ''<!--preload-state-->'' preloadStateScript)"

text \<open>Line 122: the shell sent when rendering has failed.\<close>

definition csr_shell :: "string \<Rightarrow> string" where
  "csr_shell template = replace template ''<!--ssr-outlet-->'' []"

text \<open>Lines 62 to 64: the manifest is required before the mode is looked at.\<close>

definition require_manifest :: "env \<Rightarrow> json io" where
  "require_manifest env = call RequireManifest (manifest_json env)"

text \<open>Lines 65 to 85: the template and the render entry point, by mode.\<close>

definition resolve :: "env \<Rightarrow> string \<Rightarrow> (string \<times> render_fn) io" where
  "resolve env url =
     (if \<not> isProd env then
        bind_io (\<lambda>w. if \<not> vite w
                      then (case createServer env of
                              Some e \<Rightarrow> (Inl e, emit CreateServer w)
                            | None \<Rightarrow> (Inr (), emit CreateServer (w\<lparr>vite := True\<rparr>)))
                      else (Inr (), w)) (\<lambda>_.
        bind_io (call ReadSrcIndexHtml (src_index_html env)) (\<lambda>raw.
        bind_io (call (TransformIndexHtml url) (transformIndexHtml env url raw)) (\<lambda>template.
        bind_io (call SsrLoadModule (ssrLoadModule_render env)) (\<lambda>render.
        return_io (template, render)))))
      else
        bind_io (call ReadDistIndexHtml (dist_index_html env)) (\<lambda>template.
        bind_io (call RequireEntryServer (entry_server_render env)) (\<lambda>render.
        return_io (template, render))))"

text \<open>Lines 87 to 124: the inner \<open>try\<close> and its \<open>catch\<close>.\<close>

definition render_page ::
  "env \<Rightarrow> string \<Rightarrow> string \<Rightarrow> string \<Rightarrow> render_fn \<Rightarrow> json \<Rightarrow> unit io" where
  "render_page env url cacheKey template render manifest =
     try_catch
       (bind_io (call (GetPrefetchData url) (getPrefetchData env url)) (\<lambda>prefetchData.
        bind_io (call (Render url prefetchData manifest) (render url prefetchData manifest)) (\<lambda>r.
        let html = assemble template r; renderedPage = html in
        bind_io (res_send 200 ''text/html'' html) (\<lambda>_.
        if isProd env
        then cacheManager_set env cacheKey renderedPage (60 * 60 * 24 * 1000)
        else return_io ()))))
       (\<lambda>renderError.
        bind_io (log (LogRenderError renderError)) (\<lambda>_.
        res_send 200 ''text/html'' (csr_shell template)))"

text \<open>Lines 125 to 131: the outer \<open>catch\<close> hands the error to the next handler.\<close>

definition pass_error :: "env \<Rightarrow> error \<Rightarrow> unit io" where
  "pass_error env e =
     bind_io (\<lambda>w. if \<not> isProd env \<and> vite w
                   then (Inr (), emit (SsrFixStacktrace e) w) else (Inr (), w)) (\<lambda>_.
     bind_io (log (LogMiddlewareError e)) (\<lambda>_.
     log (NextError e)))"

text \<open>Lines 48 to 131: the outer \<open>try\<close> and its \<open>catch\<close>.\<close>

definition render_or_next :: "env \<Rightarrow> string \<Rightarrow> string \<Rightarrow> unit io" where
  "render_or_next env url cacheKey =
     try_catch
       (bind_io (require_manifest env) (\<lambda>manifest.
        bind_io (resolve env url) (\<lambda>(template, render).
        render_page env url cacheKey template render manifest)))
       (pass_error env)"

text \<open>Lines 39 to 46: the bypass test on \<open>req.path\<close>.\<close>

definition bypass :: "request \<Rightarrow> bool" where
  "bypass req =
     (startsWith (path req) ''/api'' \<or> startsWith (path req) ''/service''
      \<or> includes_str (path req) ''/assets'')"

text \<open>
  The method \<open>use\<close>. The cache lookup of lines 27 to 37 is outside both \<open>try\<close> blocks: when it
  rejects, the promise that \<open>use\<close> returns rejects, which is the result \<open>Inl e\<close>.
\<close>

definition use :: "env \<Rightarrow> request \<Rightarrow> unit io" where
  "use env req =
     (let url = originalUrl req;
          cacheKey = ''ssr:'' @ url;
          rest = (if bypass req then log Next else render_or_next env url cacheKey)
      in if isProd env then
           bind_io (cacheManager_get env cacheKey) (\<lambda>cachedPage.
             case cachedPage of
               None \<Rightarrow> rest
             | Some page \<Rightarrow>
                 if page \<noteq> [] then
                   bind_io (log LogCacheHit) (\<lambda>_. res_send 200 ''text/html'' page)
                 else rest)
         else rest)"

subsection \<open>Clearing the cache\<close>



subsection \<open>Reading a run\<close>

text \<open>The events a run has added to the trace, and the kinds of event the claims speak of.\<close>

definition new_events :: "world \<Rightarrow> world \<Rightarrow> event list" where
  "new_events w w' = drop (length (trace w)) (trace w')"

fun is_cache_read :: "event \<Rightarrow> bool" where
  "is_cache_read (CacheGet k) = True"
| "is_cache_read _ = False"

fun is_cache_write :: "event \<Rightarrow> bool" where
  "is_cache_write (CacheSet k v t) = True"
| "is_cache_write _ = False"

fun is_render_call :: "event \<Rightarrow> bool" where
  "is_render_call (Render u p m) = True"
| "is_render_call _ = False"

fun is_response :: "event \<Rightarrow> bool" where
  "is_response (Send s c b) = True"
| "is_response _ = False"

fun is_next :: "event \<Rightarrow> bool" where
  "is_next Next = True"
| "is_next (NextError e) = True"
| "is_next _ = False"

text \<open>
  The request gets past lines 27 to 37: in production the lookup returns, and returns
  nothing or the empty string (\<open>if (cachedPage)\<close> is false for both).
\<close>

definition cache_miss :: "env \<Rightarrow> request \<Rightarrow> world \<Rightarrow> bool" where
  "cache_miss env req w =
     (isProd env \<longrightarrow>
        get_fails env (''ssr:'' @ originalUrl req) = None \<and>
        (case map_of (cache w) (''ssr:'' @ originalUrl req) of
           None \<Rightarrow> True
         | Some (page, ttl) \<Rightarrow> page = []))"

definition after_lookup :: "env \<Rightarrow> request \<Rightarrow> world \<Rightarrow> world" where
  "after_lookup env req w =
     (if isProd env then emit (CacheGet (''ssr:'' @ originalUrl req)) w else w)"

text \<open>The six markers of lines 100 to 106, and the five that line 122 does not touch.\<close>

definition markers :: "string list" where
  "markers = [''<!--preload-links-->'', ''<html>'', ''<body>'', ''</head>'',
              ''<!--ssr-outlet-->'', ''<!--preload-state-->'']"

definition other_markers :: "string list" where
  "other_markers = [''<!--preload-links-->'', ''<html>'', ''<body>'', ''</head>'',
                    ''<!--preload-state-->'']"

subsection \<open>Concrete inputs\<close>

definition ex_template :: string where
  "ex_template =
     ''<html><head></head><body><!--ssr-outlet--><!--preload-state--></body></html>''"

definition full_template :: string where
  "full_template =
     ''<html><head><!--preload-links--></head><body><!--ssr-outlet--><!--preload-state--><!--ssr-outlet--></body></html>''"

definition ex_result :: render_result where
  "ex_result =
     \<lparr>html = ''<div>A</div>'', ctx = \<lparr>preloadState = JObject [(''x'', JNumber 1)]\<rparr>,
      headTags = [], htmlAttrs = [], bodyAttrs = [], preloadLinks = []\<rparr>"

definition ok_render :: render_fn where
  "ok_render = (\<lambda>url prefetchData manifest. Inr ex_result)"

definition failing_render :: render_fn where
  "failing_render = (\<lambda>url prefetchData manifest. Inl (Error ''render failed''))"

definition prod_env :: env where
  "prod_env =
     \<lparr>isProd = True, get_fails = (\<lambda>key. None), set_fails = (\<lambda>key. None), keys_fails = None,
      del_fails = (\<lambda>key. None), manifest_json = Inr (JObject []), createServer = None,
      src_index_html = Inr ex_template, transformIndexHtml = (\<lambda>url raw. Inr raw),
      ssrLoadModule_render = Inr ok_render, dist_index_html = Inr ex_template,
      entry_server_render = Inr ok_render, getPrefetchData = (\<lambda>url. Inr JNull)\<rparr>"

definition dev_env :: env where
  "dev_env = prod_env\<lparr>isProd := False\<rparr>"

definition ex_req :: request where
  "ex_req = \<lparr>originalUrl = ''/a?x=1'', path = ''/a''\<rparr>"

definition api_req :: request where
  "api_req = \<lparr>originalUrl = ''/api/users'', path = ''/api/users''\<rparr>"

definition fresh_world :: world where
  "fresh_world = \<lparr>cache = [], vite = False, sent = None, trace = []\<rparr>"

definition store_world :: world where
  "store_world =
     fresh_world\<lparr>cache := [(''ssr:/a'', ''<p>a</p>'', 86400000), (''ssr:/b'', ''<p>b</p>'', 86400000),
                           (''other:/c'', ''c'', 1000)]\<rparr>"

definition down_env :: env where
  "down_env = prod_env\<lparr>get_fails := (\<lambda>key. Some (Error ''ECONNREFUSED''))\<rparr>"

definition no_manifest_env :: env where
  "no_manifest_env = dev_env\<lparr>manifest_json := Inl (Error ''MODULE_NOT_FOUND'')\<rparr>"

definition empty_page_world :: world where
  "empty_page_world = fresh_world\<lparr>cache := [(''ssr:/a?x=1'', [], 86400000)]\<rparr>"

definition cached_world :: world where
  "cached_world = fresh_world\<lparr>cache := [(''ssr:/a?x=1'', ''<p>cached</p>'', 86400000)]\<rparr>"

definition api_cached_world :: world where
  "api_cached_world =
     fresh_world\<lparr>cache := [(''ssr:/api/users'', ''<p>users</p>'', 86400000)]\<rparr>"

definition broken_render_env :: env where
  "broken_render_env = prod_env\<lparr>entry_server_render := Inr failing_render\<rparr>"

definition full_template_env :: env where
  "full_template_env =
     prod_env\<lparr>dist_index_html := Inr full_template, entry_server_render := Inr failing_render\<rparr>"

definition no_template_env :: env where
  "no_template_env = prod_env\<lparr>dist_index_html := Inl (Error ''ENOENT'')\<rparr>"

definition no_prefetch_env :: env where
  "no_prefetch_env = prod_env\<lparr>getPrefetchData := (\<lambda>url. Inl (Error ''prefetch failed''))\<rparr>"



definition set_down_env :: env where
  "set_down_env = prod_env\<lparr>set_fails := (\<lambda>key. Some (Error ''ECONNRESET''))\<rparr>"

section \<open>Lemmas\<close>

subsection \<open>First occurrences\<close>

lemma split_at_first_Some:
  "split_at_first pat s = Some (b, a) \<Longrightarrow> s = b @ pat @ a"
proof (induction s arbitrary: b)
  case Nil
  then show ?case by (simp split: if_splits)
next
  case (Cons c cs)
  show ?case
  proof (cases "prefix pat (c # cs)")
    case True
    with Cons.prems have ba: "b = []" "a = drop (length pat) (c # cs)" by simp_all
    from True have "take (length pat) (c # cs) = pat"
      by (metis append_eq_conv_conj prefix_def)
    then have "c # cs = pat @ drop (length pat) (c # cs)"
      by (metis append_take_drop_id)
    with ba show ?thesis by simp
  next
    case False
    with Cons.prems obtain b' where "split_at_first pat cs = Some (b', a)" "b = c # b'"
      by auto
    with Cons.IH show ?thesis by simp
  qed
qed

lemma split_at_first_None:
  "split_at_first pat s = None \<Longrightarrow> s \<noteq> p @ pat @ q"
proof (induction s arbitrary: p)
  case Nil
  then show ?case by (simp split: if_splits)
next
  case (Cons c cs)
  from Cons.prems have np: "\<not> prefix pat (c # cs)" and rest: "split_at_first pat cs = None"
    by (auto split: if_splits)
  show ?case
  proof (cases p)
    case Nil
    with np show ?thesis by (auto simp: prefix_def)
  next
    case (Cons d ps)
    with Cons.IH[OF rest, of ps] show ?thesis by simp
  qed
qed

lemma split_at_first_leftmost:
  "split_at_first pat s = Some (b, a) \<Longrightarrow> s = p @ pat @ q \<Longrightarrow> length b \<le> length p"
proof (induction s arbitrary: b p)
  case Nil
  then show ?case by (simp split: if_splits)
next
  case (Cons c cs)
  show ?case
  proof (cases "prefix pat (c # cs)")
    case True
    with Cons.prems(1) show ?thesis by simp
  next
    case False
    with Cons.prems(1) obtain b' where b': "split_at_first pat cs = Some (b', a)" "b = c # b'"
      by auto
    from False Cons.prems(2) obtain ps where "p = c # ps" "cs = ps @ pat @ q"
      by (cases p) (auto simp: prefix_def)
    with Cons.IH[OF b'(1)] b'(2) show ?thesis by simp
  qed
qed

text \<open>\<open>includes_str\<close> is \<open>String.prototype.includes\<close>: the pattern occurs somewhere.\<close>

lemma includes_str_iff:
  "includes_str s p \<longleftrightarrow> (\<exists>b a. s = b @ p @ a)"
proof
  assume "includes_str s p"
  then obtain b a where "split_at_first p s = Some (b, a)"
    by (auto simp: includes_str_def)
  then have "s = b @ p @ a" by (rule split_at_first_Some)
  then show "\<exists>b a. s = b @ p @ a" by blast
next
  assume "\<exists>b a. s = b @ p @ a"
  then obtain b a where "s = b @ p @ a" by blast
  with split_at_first_None[of p s b a] have "split_at_first p s \<noteq> None" by blast
  then show "includes_str s p" by (simp add: includes_str_def)
qed

lemma first_occurrence_unique:
  "x \<notin> set xs \<Longrightarrow> x \<notin> set xs' \<Longrightarrow> xs @ x # ys = xs' @ x # ys' \<Longrightarrow> xs = xs'"
proof (induction xs arbitrary: xs')
  case Nil
  then show ?case by (cases xs') auto
next
  case (Cons z zs)
  then show ?case by (cases xs') auto
qed

lemma tag_no_overlap:
  assumes m: "m = CHR ''<'' # mm @ ''>''" and mm: "CHR ''<'' \<notin> set mm" "CHR ''>'' \<notin> set mm"
    and s: "s = CHR ''<'' # ss @ ''>''" and ss: "CHR ''<'' \<notin> set ss" "CHR ''>'' \<notin> set ss"
    and ne: "m \<noteq> s"
    and eq: "p @ m @ q = b @ s @ a"
  shows "(\<exists>r. b = p @ m @ r) \<or> (\<exists>r. a = r @ m @ q)"
proof -
  have m_lt: "m ! i \<noteq> CHR ''<''" if "0 < i" "i < length m" for i
  proof -
    from that have "m ! i \<in> set (mm @ ''>'')"
      unfolding m by (cases i) (simp_all del: set_append)
    with mm show ?thesis by auto
  qed
  have s_lt: "s ! i \<noteq> CHR ''<''" if "0 < i" "i < length s" for i
  proof -
    from that have "s ! i \<in> set (ss @ ''>'')"
      unfolding s by (cases i) (simp_all del: set_append)
    with ss show ?thesis by auto
  qed
  have m0: "m ! 0 = CHR ''<''" and s0: "s ! 0 = CHR ''<''" by (simp_all add: m s)
  have L: "(p @ m @ q) ! (length p + i) = m ! i" if "i < length m" for i
    using that by (simp add: nth_append)
  have R: "(b @ s @ a) ! (length b + j) = s ! j" if "j < length s" for j
    using that by (simp add: nth_append)
  consider (left) "length p + length m \<le> length b"
    | (right) "length b + length s \<le> length p"
    | (same) "length p = length b"
    | (in_m) "length p < length b" "length b < length p + length m"
    | (in_s) "length b < length p" "length p < length b + length s"
    by linarith
  then show ?thesis
  proof cases
    case left
    from eq have "(p @ m) @ q = b @ (s @ a)" by simp
    with left have "p @ m = take (length (p @ m)) b"
      by (simp add: append_eq_append_conv_if del: append_assoc)
    then have "b = (p @ m) @ drop (length (p @ m)) b"
      by (metis append_take_drop_id)
    then show ?thesis by (metis append_assoc)
  next
    case right
    from eq have "(b @ s) @ a = p @ (m @ q)" by simp
    with right have "a = drop (length (b @ s)) p @ (m @ q)"
      by (simp add: append_eq_append_conv_if del: append_assoc)
    then show ?thesis by blast
  next
    case same
    with eq have "m @ q = s @ a" by simp
    then have "mm @ CHR ''>'' # q = ss @ CHR ''>'' # a" by (simp add: m s)
    then have "mm = ss" by (rule first_occurrence_unique[OF mm(2) ss(2)])
    with ne show ?thesis by (simp add: m s)
  next
    case in_m
    let ?i = "length b - length p"
    from in_m have i: "0 < ?i" "?i < length m" by simp_all
    have "m ! ?i = (p @ m @ q) ! (length p + ?i)" using L[OF i(2)] by simp
    also have "\<dots> = (b @ s @ a) ! (length b + 0)" using in_m eq by simp
    also have "\<dots> = s ! 0" by (rule R) (simp add: s)
    finally show ?thesis using m_lt[OF i] s0 by simp
  next
    case in_s
    let ?j = "length p - length b"
    from in_s have j: "0 < ?j" "?j < length s" by simp_all
    have "s ! ?j = (b @ s @ a) ! (length b + ?j)" using R[OF j(2)] by simp
    also have "\<dots> = (p @ m @ q) ! (length p + 0)" using in_s eq by simp
    also have "\<dots> = m ! 0" by (rule L) (simp add: m)
    finally show ?thesis using s_lt[OF j] m0 by simp
  qed
qed


subsection \<open>Steps of the pipeline\<close>

lemmas io_defs = bind_io_def try_catch_def call_def log_def return_io_def emit_def

lemma new_events_append [simp]:
  "trace w' = trace w @ evs \<Longrightarrow> new_events w w' = evs"
  by (simp add: new_events_def)

lemma after_lookup_fields [simp]:
  "cache (after_lookup env req w) = cache w"
  "sent (after_lookup env req w) = sent w"
  "vite (after_lookup env req w) = vite w"
  "trace (after_lookup env req w) =
     trace w @ (if isProd env then [CacheGet (''ssr:'' @ originalUrl req)] else [])"
  by (simp_all add: after_lookup_def emit_def)

lemma use_miss:
  assumes "cache_miss env req w"
  shows "use env req w =
           (if bypass req then log Next (after_lookup env req w)
            else render_or_next env (originalUrl req) (''ssr:'' @ originalUrl req)
                   (after_lookup env req w))"
  using assms unfolding use_def cache_miss_def after_lookup_def cacheManager_get_def bind_io_def
  by (auto simp: Let_def split: option.splits)

lemma resolve_outcome:
  "vite w' = vite w \<Longrightarrow> fst (resolve env url w') = fst (resolve env url w)"
  unfolding resolve_def io_defs
  by (auto split: option.splits sum.splits)

lemma resolve_effect:
  assumes "resolve env url w = (r, w')"
  shows "cache w' = cache w \<and> sent w' = sent w \<and> (vite w \<longrightarrow> vite w') \<and>
         (\<exists>evs. trace w' = trace w @ evs \<and>
            (\<forall>e\<in>set evs. \<not> is_cache_write e \<and> \<not> is_render_call e
                \<and> \<not> is_response e \<and> \<not> is_next e))"
  using assms unfolding resolve_def io_defs
  by (auto split: option.splits sum.splits if_splits)

lemma pass_error_result:
  "pass_error env e w =
     (Inr (), w\<lparr>trace := trace w
                 @ (if \<not> isProd env \<and> vite w then [SsrFixStacktrace e] else [])
                 @ [LogMiddlewareError e, NextError e]\<rparr>)"
  unfolding pass_error_def io_defs by simp

text \<open>A request that misses the cache and is not bypassed, up to the inner \<open>try\<close>.\<close>

lemma use_reaches_render_page:
  assumes miss: "cache_miss env req w"
    and route: "\<not> bypass req"
    and manifest: "manifest_json env = Inr manifest"
    and resolved: "fst (resolve env (originalUrl req) w) = Inr (template, render)"
  shows "\<exists>w1 evs.
           use env req w =
             try_catch
               (render_page env (originalUrl req) (''ssr:'' @ originalUrl req) template render
                  manifest)
               (pass_error env) w1
         \<and> cache w1 = cache w \<and> sent w1 = sent w \<and> trace w1 = trace w @ evs
         \<and> (\<forall>e\<in>set evs. \<not> is_cache_write e \<and> \<not> is_render_call e
                \<and> \<not> is_response e \<and> \<not> is_next e)"
proof -
  let ?url = "originalUrl req"
  let ?w0 = "emit RequireManifest (after_lookup env req w)"
  obtain r1 w1 where R: "resolve env ?url ?w0 = (r1, w1)"
    by (cases "resolve env ?url ?w0")
  have "fst (resolve env ?url ?w0) = fst (resolve env ?url w)"
    by (rule resolve_outcome) (simp add: emit_def)
  with R resolved have r1: "r1 = Inr (template, render)" by simp
  from resolve_effect[OF R] obtain evs where
    E: "cache w1 = cache w" "sent w1 = sent w"
       "trace w1 = trace w @ (if isProd env then [CacheGet (''ssr:'' @ ?url)] else [])
                     @ RequireManifest # evs"
       "\<forall>e\<in>set evs. \<not> is_cache_write e \<and> \<not> is_render_call e
                \<and> \<not> is_response e \<and> \<not> is_next e"
    by (auto simp: emit_def)
  have "use env req w =
          try_catch (render_page env ?url (''ssr:'' @ ?url) template render manifest)
            (pass_error env) w1"
    using use_miss[OF miss] route R r1 manifest
    unfolding render_or_next_def require_manifest_def try_catch_def bind_io_def call_def
    by (simp split: prod.splits sum.splits)
  moreover have "\<forall>e\<in>set ((if isProd env then [CacheGet (''ssr:'' @ ?url)] else [])
                     @ RequireManifest # evs).
       \<not> is_cache_write e \<and> \<not> is_render_call e \<and> \<not> is_response e \<and> \<not> is_next e"
    using E(4) by auto
  ultimately show ?thesis using E(1-3) by blast
qed

text \<open>The same request when the manifest or the resolution fails: the outer \<open>catch\<close>.\<close>

lemma use_manifest_fails:
  assumes miss: "cache_miss env req w"
    and route: "\<not> bypass req"
    and manifest: "manifest_json env = Inl e"
  shows "use env req w =
           (Inr (), w\<lparr>trace := trace w
                       @ (if isProd env then [CacheGet (''ssr:'' @ originalUrl req)] else [])
                       @ [RequireManifest]
                       @ (if \<not> isProd env \<and> vite w then [SsrFixStacktrace e] else [])
                       @ [LogMiddlewareError e, NextError e]\<rparr>)"
  using use_miss[OF miss] route manifest
  unfolding render_or_next_def require_manifest_def pass_error_def after_lookup_def io_defs
  by simp

lemma use_resolve_fails:
  assumes miss: "cache_miss env req w"
    and route: "\<not> bypass req"
    and manifest: "manifest_json env = Inr manifest"
    and resolved: "fst (resolve env (originalUrl req) w) = Inl e"
  shows "\<exists>w1 evs. use env req w = (Inr (), w1)
         \<and> cache w1 = cache w \<and> sent w1 = sent w \<and> trace w1 = trace w @ evs
         \<and> filter is_next evs = [NextError e] \<and> filter is_response evs = []
         \<and> filter is_render_call evs = [] \<and> filter is_cache_write evs = []"
proof -
  let ?url = "originalUrl req"
  let ?w0 = "emit RequireManifest (after_lookup env req w)"
  obtain r1 w1 where R: "resolve env ?url ?w0 = (r1, w1)"
    by (cases "resolve env ?url ?w0")
  have "fst (resolve env ?url ?w0) = fst (resolve env ?url w)"
    by (rule resolve_outcome) (simp add: emit_def)
  with R resolved have r1: "r1 = Inl e" by simp
  from resolve_effect[OF R] obtain evs where
    E: "cache w1 = cache w" "sent w1 = sent w"
       "trace w1 = trace w @ (if isProd env then [CacheGet (''ssr:'' @ ?url)] else [])
                     @ RequireManifest # evs"
       "\<forall>e\<in>set evs. \<not> is_cache_write e \<and> \<not> is_render_call e
                \<and> \<not> is_response e \<and> \<not> is_next e"
    by (auto simp: emit_def)
  have f: "filter is_cache_write evs = []" "filter is_response evs = []"
    "filter is_next evs = []" "filter is_render_call evs = []"
    using E(4) by (simp_all add: filter_empty_conv)
  let ?tail = "(if \<not> isProd env \<and> vite w1 then [SsrFixStacktrace e] else [])
                @ [LogMiddlewareError e, NextError e]"
  have "use env req w = pass_error env e w1"
    using use_miss[OF miss] route R r1 manifest
    unfolding render_or_next_def require_manifest_def try_catch_def bind_io_def call_def
    by (simp split: prod.splits sum.splits)
  then have U: "use env req w = (Inr (), w1\<lparr>trace := trace w1 @ ?tail\<rparr>)"
    by (simp add: pass_error_result)
  show ?thesis
    apply (rule exI[of _ "w1\<lparr>trace := trace w1 @ ?tail\<rparr>"])
    apply (rule exI[of _ "(if isProd env then [CacheGet (''ssr:'' @ ?url)] else [])
                     @ RequireManifest # evs @ ?tail"])
    using U E(1-3) f by simp
qed

subsection \<open>Evaluating concrete runs\<close>

lemmas env_defs = prod_env_def dev_env_def down_env_def no_manifest_env_def ok_render_def
  failing_render_def ex_req_def api_req_def fresh_world_def store_world_def
  empty_page_world_def cached_world_def api_cached_world_def broken_render_env_def
  full_template_env_def no_template_env_def no_prefetch_env_def set_down_env_def

lemmas run_defs = use_def Let_def cacheManager_get_def cacheManager_set_def bypass_def
  startsWith_def includes_str_def render_or_next_def require_manifest_def resolve_def
  render_page_def res_send_def pass_error_def io_defs cache_miss_def new_events_def

lemmas page_defs = assemble_def csr_shell_def replace_def ex_template_def full_template_def
  ex_result_def show_int_def digit_char_def QuoteJSONString_def quote_char_def

subsection \<open>The inner \<open>try\<close>\<close>

lemma assemble_example:
  "assemble ex_template ex_result =
     ''<html ><head></head><body ><div>A</div><script>window.__PRELOAD_STATE__ = {''
     @ [CHR 0x22] @ ''x'' @ [CHR 0x22] @ '':1}</script></body></html>''"
  by (simp add: page_defs)

lemma render_page_prefetch_rejects:
  assumes "sent w = None" and "getPrefetchData env url = Inl e"
  shows "render_page env url key template render manifest w =
           (Inr (), w\<lparr>sent := Some (200, ''text/html'', csr_shell template),
                      trace := trace w @ [GetPrefetchData url, LogRenderError e,
                                 Send 200 ''text/html'' (csr_shell template)]\<rparr>)"
  using assms unfolding render_page_def res_send_def io_defs
  by (simp add: Let_def)

lemma render_page_render_rejects:
  assumes "sent w = None" and "getPrefetchData env url = Inr pd"
    and "render url pd manifest = Inl e"
  shows "render_page env url key template render manifest w =
           (Inr (), w\<lparr>sent := Some (200, ''text/html'', csr_shell template),
                      trace := trace w @ [GetPrefetchData url, Render url pd manifest,
                                 LogRenderError e,
                                 Send 200 ''text/html'' (csr_shell template)]\<rparr>)"
  using assms unfolding render_page_def res_send_def io_defs
  by (simp add: Let_def)

lemma render_page_render_succeeds:
  assumes "sent w = None" and "getPrefetchData env url = Inr pd"
    and "render url pd manifest = Inr r"
  shows "render_page env url key template render manifest w =
           (if \<not> isProd env then
              (Inr (), w\<lparr>sent := Some (200, ''text/html'', assemble template r),
                 trace := trace w @ [GetPrefetchData url, Render url pd manifest,
                            Send 200 ''text/html'' (assemble template r)]\<rparr>)
            else case set_fails env key of
              None \<Rightarrow>
                (Inr (), w\<lparr>cache := AList.update key (assemble template r, 86400000) (cache w),
                   sent := Some (200, ''text/html'', assemble template r),
                   trace := trace w @ [GetPrefetchData url, Render url pd manifest,
                              Send 200 ''text/html'' (assemble template r),
                              CacheSet key (assemble template r) 86400000]\<rparr>)
            | Some e \<Rightarrow>
                (Inl (Error ''ERR_HTTP_HEADERS_SENT''),
                   w\<lparr>sent := Some (200, ''text/html'', assemble template r),
                   trace := trace w @ [GetPrefetchData url, Render url pd manifest,
                              Send 200 ''text/html'' (assemble template r),
                              CacheSet key (assemble template r) 86400000,
                              LogRenderError e]\<rparr>))"
  using assms unfolding render_page_def res_send_def cacheManager_set_def io_defs
  by (simp add: Let_def split: option.splits)

text \<open>A failure inside the inner \<open>try\<close> before the response: the shell is sent.\<close>

lemma use_degrades:
  assumes fresh: "sent w = None"
    and miss: "cache_miss env req w"
    and route: "\<not> bypass req"
    and manifest: "manifest_json env = Inr manifest"
    and resolved: "fst (resolve env (originalUrl req) w) = Inr (template, render)"
    and fails: "getPrefetchData env (originalUrl req) = Inl e \<or>
         (\<exists>pd. getPrefetchData env (originalUrl req) = Inr pd
               \<and> render (originalUrl req) pd manifest = Inl e)"
  shows "\<exists>w1 evs. use env req w = (Inr (), w1) \<and> cache w1 = cache w
         \<and> sent w1 = Some (200, ''text/html'', csr_shell template)
         \<and> trace w1 = trace w @ evs
         \<and> filter is_cache_write evs = []
         \<and> filter is_response evs = [Send 200 ''text/html'' (csr_shell template)]
         \<and> filter is_next evs = []"
proof -
  let ?url = "originalUrl req" and ?key = "''ssr:'' @ originalUrl req"
  from use_reaches_render_page[OF miss route manifest resolved] obtain w0 evs where
    U: "use env req w =
          try_catch (render_page env ?url ?key template render manifest) (pass_error env) w0"
    and E: "cache w0 = cache w" "sent w0 = sent w" "trace w0 = trace w @ evs"
       "\<forall>e\<in>set evs. \<not> is_cache_write e \<and> \<not> is_render_call e
                \<and> \<not> is_response e \<and> \<not> is_next e"
    by blast
  have s0: "sent w0 = None" using E fresh by simp
  have f: "filter is_cache_write evs = []" "filter is_response evs = []"
    "filter is_next evs = []"
    using E(4) by (simp_all add: filter_empty_conv)
  from fails show ?thesis
  proof
    assume pf: "getPrefetchData env ?url = Inl e"
    let ?new = "[GetPrefetchData ?url, LogRenderError e,
                 Send 200 ''text/html'' (csr_shell template)]"
    have "use env req w =
        (Inr (), w0\<lparr>sent := Some (200, ''text/html'', csr_shell template),
                      trace := trace w0 @ ?new\<rparr>)"
      using U render_page_prefetch_rejects[where render = render and w = w0 and env = env
          and manifest = manifest and e = e and template = template and key = "?key",
          OF s0 pf]
      by (simp add: try_catch_def)
    then show ?thesis
      apply (intro exI[of _ "w0\<lparr>sent := Some (200, ''text/html'', csr_shell template),
                      trace := trace w0 @ ?new\<rparr>"] exI[of _ "evs @ ?new"])
      using E(1-3) f by simp
  next
    assume "\<exists>pd. getPrefetchData env ?url = Inr pd \<and> render ?url pd manifest = Inl e"
    then obtain pd where pf: "getPrefetchData env ?url = Inr pd"
      and rj: "render ?url pd manifest = Inl e" by blast
    let ?new = "[GetPrefetchData ?url, Render ?url pd manifest, LogRenderError e,
                 Send 200 ''text/html'' (csr_shell template)]"
    have "use env req w =
        (Inr (), w0\<lparr>sent := Some (200, ''text/html'', csr_shell template),
                      trace := trace w0 @ ?new\<rparr>)"
      using U render_page_render_rejects[where render = render and w = w0 and env = env
          and pd = pd and manifest = manifest and e = e and template = template
          and key = "?key", OF s0 pf rj]
      by (simp add: try_catch_def)
    then show ?thesis
      apply (intro exI[of _ "w0\<lparr>sent := Some (200, ''text/html'', csr_shell template),
                      trace := trace w0 @ ?new\<rparr>"] exI[of _ "evs @ ?new"])
      using E(1-3) f by simp
  qed
qed

lemma csr_shell_split:
  "csr_shell template =
     (case split_at_first ''<!--ssr-outlet-->'' template of
        None \<Rightarrow> template
      | Some (b, a) \<Rightarrow> b @ a)"
  by (simp add: csr_shell_def replace_def split: option.splits)

subsection \<open>Markers in the degraded shell\<close>

lemma csr_shell_keeps:
  assumes m: "m \<in> set other_markers" and occ: "template = p @ m @ q"
  shows "(\<exists>r. csr_shell template = p @ m @ r) \<or> (\<exists>r. csr_shell template = r @ m @ q)"
proof (cases "split_at_first ''<!--ssr-outlet-->'' template")
  case None
  with occ show ?thesis by (simp add: csr_shell_split)
next
  case (Some ba)
  obtain b a where ba: "ba = (b, a)" by (cases ba)
  with Some have S: "split_at_first ''<!--ssr-outlet-->'' template = Some (b, a)" by simp
  have t: "template = b @ ''<!--ssr-outlet-->'' @ a" by (rule split_at_first_Some[OF S])
  have shell: "csr_shell template = b @ a" using S by (simp add: csr_shell_split)
  have eq: "p @ m @ q = b @ ''<!--ssr-outlet-->'' @ a" using occ t by simp
  have s: "''<!--ssr-outlet-->'' = CHR ''<'' # ''!--ssr-outlet--'' @ ''>''"
    "CHR ''<'' \<notin> set ''!--ssr-outlet--''" "CHR ''>'' \<notin> set ''!--ssr-outlet--''"
    by simp_all
  from m have "m = ''<!--preload-links-->'' \<or> m = ''<html>'' \<or> m = ''<body>''
      \<or> m = ''</head>'' \<or> m = ''<!--preload-state-->''"
    unfolding other_markers_def by (simp only: list.set insert_iff empty_iff simp_thms)
  then have "(\<exists>r. b = p @ m @ r) \<or> (\<exists>r. a = r @ m @ q)"
  proof (elim disjE)
    assume 1: "m = ''<!--preload-links-->''"
    show ?thesis
      by (rule tag_no_overlap[where mm = "''!--preload-links--''", OF _ _ _ s _ eq])
         (simp_all add: 1)
  next
    assume 2: "m = ''<html>''"
    show ?thesis
      by (rule tag_no_overlap[where mm = "''html''", OF _ _ _ s _ eq]) (simp_all add: 2)
  next
    assume 3: "m = ''<body>''"
    show ?thesis
      by (rule tag_no_overlap[where mm = "''body''", OF _ _ _ s _ eq]) (simp_all add: 3)
  next
    assume 4: "m = ''</head>''"
    show ?thesis
      by (rule tag_no_overlap[where mm = "''/head''", OF _ _ _ s _ eq]) (simp_all add: 4)
  next
    assume 5: "m = ''<!--preload-state-->''"
    show ?thesis
      by (rule tag_no_overlap[where mm = "''!--preload-state--''", OF _ _ _ s _ eq])
         (simp_all add: 5)
  qed
  then show ?thesis
  proof
    assume "\<exists>r. b = p @ m @ r"
    then obtain r where "b = p @ m @ r" ..
    with shell have "csr_shell template = p @ m @ (r @ a)" by simp
    then show ?thesis by blast
  next
    assume "\<exists>r. a = r @ m @ q"
    then obtain r where "a = r @ m @ q" ..
    with shell have "csr_shell template = (b @ r) @ m @ q" by simp
    then show ?thesis by blast
  qed
qed

subsection \<open>Clearing the cache\<close>








subsection \<open>A development-mode run\<close>

text \<open>
  The first request in development mode creates the dev server, renders through it and
  leaves the cache alone.
\<close>

lemma dev_run_example:
  "use dev_env ex_req fresh_world =
     (Inr (),
      fresh_world\<lparr>vite := True,
        sent := Some (200, ''text/html'', assemble ex_template ex_result),
        trace := [RequireManifest, CreateServer, ReadSrcIndexHtml, TransformIndexHtml ''/a?x=1'',
                  SsrLoadModule, GetPrefetchData ''/a?x=1'', Render ''/a?x=1'' JNull (JObject []),
                  Send 200 ''text/html'' (assemble ex_template ex_result)]\<rparr>)"
  by (simp add: env_defs run_defs)

section \<open>The claims\<close>

subsection \<open>C1: a rejected render\<close>

text \<open>
  C1: for every request in which the render entry point rejects, the response has status
  200 and content type \<open>text/html\<close>, its body is the template with the first
  \<open><!--ssr-outlet-->\<close> taken out (the template itself when it has none), exactly one
  response is sent, and nothing is written to the cache. The render entry point is reached
  when the response is still unsent, the lookup misses, the path is not bypassed, the
  manifest loads, the resolution yields the template and the entry point, and the prefetch
  returns.
\<close>

theorem render_rejection_degrades:
  assumes run: "use env req w = (res, w')"
    and fresh: "sent w = None"
    and miss: "cache_miss env req w"
    and route: "\<not> bypass req"
    and manifest: "manifest_json env = Inr manifest"
    and resolved: "fst (resolve env (originalUrl req) w) = Inr (template, render)"
    and prefetch: "getPrefetchData env (originalUrl req) = Inr pd"
    and rejects: "render (originalUrl req) pd manifest = Inl e"
  shows "res = Inr ()
       \<and> sent w' = Some (200, ''text/html'', csr_shell template)
       \<and> csr_shell template =
           (case split_at_first ''<!--ssr-outlet-->'' template of
              None \<Rightarrow> template
            | Some (b, a) \<Rightarrow> b @ a)
       \<and> cache w' = cache w
       \<and> filter is_cache_write (new_events w w') = []
       \<and> filter is_response (new_events w w') = [Send 200 ''text/html'' (csr_shell template)]"
proof -
  from prefetch rejects have
    "getPrefetchData env (originalUrl req) = Inl e \<or>
       (\<exists>pd. getPrefetchData env (originalUrl req) = Inr pd
             \<and> render (originalUrl req) pd manifest = Inl e)"
    by blast
  from use_degrades[OF fresh miss route manifest resolved this] run
  show ?thesis by (auto simp: csr_shell_split)
qed

theorem render_rejection_degrades_witness:
  "use broken_render_env ex_req fresh_world =
     (Inr (), snd (use broken_render_env ex_req fresh_world))
   \<and> sent fresh_world = None \<and> cache_miss broken_render_env ex_req fresh_world
   \<and> \<not> bypass ex_req \<and> manifest_json broken_render_env = Inr (JObject [])
   \<and> fst (resolve broken_render_env (originalUrl ex_req) fresh_world) =
        Inr (ex_template, failing_render)
   \<and> getPrefetchData broken_render_env (originalUrl ex_req) = Inr JNull
   \<and> failing_render (originalUrl ex_req) JNull (JObject []) = Inl (Error ''render failed'')
   \<and> sent (snd (use broken_render_env ex_req fresh_world)) =
        Some (200, ''text/html'', ''<html><head></head><body><!--preload-state--></body></html>'')
   \<and> cache (snd (use broken_render_env ex_req fresh_world)) = []"
  using render_rejection_degrades[of broken_render_env ex_req fresh_world "Inr ()"
      "snd (use broken_render_env ex_req fresh_world)" "JObject []" ex_template failing_render
      JNull "Error ''render failed''"]
  by (simp add: env_defs run_defs page_defs)

subsection \<open>C2: bypassed paths\<close>

text \<open>
  C2, as the code has it: for every request whose path starts with \<open>/api\<close> or \<open>/service\<close>
  or contains \<open>/assets\<close>, the run writes nothing to the cache and never calls the render
  entry point. In development mode it does nothing but call the next handler. In production
  mode the lookup of line 29 comes first: the run reads the cache once, and calls the next
  handler when the lookup returns nothing or the empty string.
\<close>

theorem bypass_skips_render_and_cache_write:
  assumes run: "use env req w = (res, w')" and route: "bypass req"
  shows "cache w' = cache w
       \<and> filter is_cache_write (new_events w w') = []
       \<and> filter is_render_call (new_events w w') = []
       \<and> (\<not> isProd env \<longrightarrow> res = Inr () \<and> new_events w w' = [Next])
       \<and> (isProd env \<and> cache_miss env req w \<longrightarrow>
            res = Inr () \<and> new_events w w' = [CacheGet (''ssr:'' @ originalUrl req), Next])"
  using assms unfolding use_def cacheManager_get_def res_send_def io_defs cache_miss_def
    new_events_def
  by (auto simp: Let_def split: option.splits if_splits)

theorem bypass_skips_render_and_cache_write_witness:
  "use dev_env api_req fresh_world = (Inr (), emit Next fresh_world) \<and> bypass api_req
   \<and> use prod_env api_req fresh_world =
        (Inr (), emit Next (emit (CacheGet ''ssr:/api/users'') fresh_world))
   \<and> isProd prod_env \<and> cache_miss prod_env api_req fresh_world \<and> \<not> isProd dev_env
   \<and> new_events fresh_world (emit Next fresh_world) = [Next]
   \<and> new_events fresh_world (emit Next (emit (CacheGet ''ssr:/api/users'') fresh_world)) =
        [CacheGet ''ssr:/api/users'', Next]"
  using bypass_skips_render_and_cache_write[of dev_env api_req fresh_world "Inr ()"
      "emit Next fresh_world"]
    bypass_skips_render_and_cache_write[of prod_env api_req fresh_world "Inr ()"
      "emit Next (emit (CacheGet ''ssr:/api/users'') fresh_world)"]
  by (simp add: env_defs run_defs)

text \<open>
  C2 as stated fails in production mode: the request for \<open>/api/users\<close> reads the cache
  before the next handler is called, and when the cache holds a page under
  \<open>ssr:/api/users\<close> that page is sent and the next handler is not called.
\<close>

theorem bypass_path_reads_cache_in_production:
  "isProd prod_env \<and> bypass api_req
   \<and> trace (snd (use prod_env api_req fresh_world)) = [CacheGet ''ssr:/api/users'', Next]
   \<and> filter is_cache_read (trace (snd (use prod_env api_req fresh_world))) =
        [CacheGet ''ssr:/api/users'']
   \<and> trace (snd (use prod_env api_req api_cached_world)) =
        [CacheGet ''ssr:/api/users'', LogCacheHit, Send 200 ''text/html'' ''<p>users</p>'']"
  by (simp add: env_defs run_defs)

subsection \<open>C3: a rejected cache lookup\<close>

text \<open>
  C3, as the code has it: in production mode, when the cache lookup at the start of \<open>use\<close>
  rejects with an error, \<open>use\<close> itself rejects with that error right after the lookup. No
  response is sent, no handler is called and no later step runs: the lookup of line 29 is
  outside both \<open>try\<close> blocks.
\<close>

theorem cache_lookup_rejection_rejects:
  assumes "isProd env" and "get_fails env (''ssr:'' @ originalUrl req) = Some e"
  shows "use env req w = (Inl e, emit (CacheGet (''ssr:'' @ originalUrl req)) w)"
  using assms unfolding use_def cacheManager_get_def bind_io_def
  by (simp add: Let_def)

theorem cache_lookup_rejection_rejects_witness:
  "isProd down_env
   \<and> get_fails down_env (''ssr:'' @ originalUrl ex_req) = Some (Error ''ECONNREFUSED'')
   \<and> use down_env ex_req fresh_world =
       (Inl (Error ''ECONNREFUSED''), emit (CacheGet (''ssr:'' @ originalUrl ex_req)) fresh_world)"
  using cache_lookup_rejection_rejects[of down_env ex_req "Error ''ECONNREFUSED''" fresh_world]
  by (simp add: env_defs)

text \<open>
  C3 as stated fails: with a cache store that refuses the connection, the request for
  \<open>/a?x=1\<close> ends in a rejection, with nothing sent and nothing after the lookup.
\<close>

theorem cache_lookup_rejection_is_fatal:
  "fst (use down_env ex_req fresh_world) = Inl (Error ''ECONNREFUSED'')
   \<and> sent (snd (use down_env ex_req fresh_world)) = None
   \<and> trace (snd (use down_env ex_req fresh_world)) = [CacheGet ''ssr:/a?x=1'']"
  by (simp add: env_defs run_defs)

subsection \<open>C4: the manifest\<close>

text \<open>
  C4, as the code has it: the manifest is required by every request that misses the cache
  and is not bypassed, in development mode as in production mode, before any step that
  depends on the mode. When the \<open>require\<close> throws, the error goes to the next handler:
  nothing is sent, and neither the dev server, the template nor the render entry point is
  touched.
\<close>

theorem missing_manifest_passes_error:
  assumes run: "use env req w = (res, w')"
    and miss: "cache_miss env req w"
    and route: "\<not> bypass req"
    and manifest: "manifest_json env = Inl e"
  shows "res = Inr () \<and> sent w' = sent w \<and> cache w' = cache w \<and> vite w' = vite w
       \<and> new_events w w' =
           (if isProd env then [CacheGet (''ssr:'' @ originalUrl req)] else [])
           @ [RequireManifest]
           @ (if \<not> isProd env \<and> vite w then [SsrFixStacktrace e] else [])
           @ [LogMiddlewareError e, NextError e]"
  using run unfolding use_manifest_fails[OF miss route manifest]
  by (auto simp: new_events_def)

theorem missing_manifest_passes_error_witness:
  "use no_manifest_env ex_req fresh_world =
     (Inr (), fresh_world\<lparr>trace := [RequireManifest, LogMiddlewareError (Error ''MODULE_NOT_FOUND''),
                                     NextError (Error ''MODULE_NOT_FOUND'')]\<rparr>)
   \<and> cache_miss no_manifest_env ex_req fresh_world \<and> \<not> bypass ex_req
   \<and> manifest_json no_manifest_env = Inl (Error ''MODULE_NOT_FOUND'')
   \<and> new_events fresh_world
        (fresh_world\<lparr>trace := [RequireManifest, LogMiddlewareError (Error ''MODULE_NOT_FOUND''),
                                     NextError (Error ''MODULE_NOT_FOUND'')]\<rparr>) =
        [RequireManifest, LogMiddlewareError (Error ''MODULE_NOT_FOUND''),
         NextError (Error ''MODULE_NOT_FOUND'')]"
  using missing_manifest_passes_error[of no_manifest_env ex_req fresh_world "Inr ()"
      "fresh_world\<lparr>trace := [RequireManifest, LogMiddlewareError (Error ''MODULE_NOT_FOUND''),
                                     NextError (Error ''MODULE_NOT_FOUND'')]\<rparr>"
      "Error ''MODULE_NOT_FOUND''"]
  by (simp add: env_defs run_defs)

text \<open>
  C4 as stated fails: in development mode, with no manifest file, the request for
  \<open>/a?x=1\<close> ends in the next handler with the error of \<open>require\<close>, and never reaches
  the dev render path.
\<close>

theorem dev_request_needs_manifest:
  "\<not> isProd no_manifest_env
   \<and> manifest_json no_manifest_env = Inl (Error ''MODULE_NOT_FOUND'')
   \<and> trace (snd (use no_manifest_env ex_req fresh_world)) =
       [RequireManifest, LogMiddlewareError (Error ''MODULE_NOT_FOUND''),
        NextError (Error ''MODULE_NOT_FOUND'')]
   \<and> sent (snd (use no_manifest_env ex_req fresh_world)) = None"
  by (simp add: env_defs run_defs)

subsection \<open>C5: which failures degrade\<close>

text \<open>
  C5, as the code has it: for a request that misses the cache and is not bypassed, a failure
  to load the manifest or to resolve the template and the render entry point (dev server,
  template file, HTML transform, module load) goes to the next handler as an error and
  nothing is sent; a rejection of the prefetch call or of the render entry point, both
  inside the inner \<open>try\<close>, is answered with status 200 and the degraded shell, and no
  handler is called.
\<close>

theorem failure_routing:
  assumes run: "use env req w = (res, w')"
    and fresh: "sent w = None"
    and miss: "cache_miss env req w"
    and route: "\<not> bypass req"
  shows "(\<forall>e. manifest_json env = Inl e \<longrightarrow>
            res = Inr () \<and> sent w' = None \<and> filter is_next (new_events w w') = [NextError e])
       \<and> (\<forall>manifest e.
            manifest_json env = Inr manifest \<and> fst (resolve env (originalUrl req) w) = Inl e \<longrightarrow>
            res = Inr () \<and> sent w' = None \<and> filter is_next (new_events w w') = [NextError e])
       \<and> (\<forall>manifest template render e.
            manifest_json env = Inr manifest
            \<and> fst (resolve env (originalUrl req) w) = Inr (template, render)
            \<and> (getPrefetchData env (originalUrl req) = Inl e
               \<or> (\<exists>pd. getPrefetchData env (originalUrl req) = Inr pd
                     \<and> render (originalUrl req) pd manifest = Inl e)) \<longrightarrow>
            res = Inr () \<and> sent w' = Some (200, ''text/html'', csr_shell template)
            \<and> filter is_next (new_events w w') = [])"
proof (intro conjI allI impI)
  fix e assume m: "manifest_json env = Inl e"
  from run fresh show "res = Inr ()" "sent w' = None"
    "filter is_next (new_events w w') = [NextError e]"
    unfolding use_manifest_fails[OF miss route m] by (auto simp: new_events_def)
next
  fix manifest e
  assume "manifest_json env = Inr manifest \<and> fst (resolve env (originalUrl req) w) = Inl e"
  then have m: "manifest_json env = Inr manifest"
    and r: "fst (resolve env (originalUrl req) w) = Inl e" by simp_all
  from use_resolve_fails[OF miss route m r] run fresh
  show "res = Inr ()" "sent w' = None" "filter is_next (new_events w w') = [NextError e]"
    by auto
next
  fix manifest template render e
  assume a: "manifest_json env = Inr manifest
            \<and> fst (resolve env (originalUrl req) w) = Inr (template, render)
            \<and> (getPrefetchData env (originalUrl req) = Inl e
               \<or> (\<exists>pd. getPrefetchData env (originalUrl req) = Inr pd
                     \<and> render (originalUrl req) pd manifest = Inl e))"
  then have m: "manifest_json env = Inr manifest"
    and r: "fst (resolve env (originalUrl req) w) = Inr (template, render)"
    and f: "getPrefetchData env (originalUrl req) = Inl e
               \<or> (\<exists>pd. getPrefetchData env (originalUrl req) = Inr pd
                     \<and> render (originalUrl req) pd manifest = Inl e)"
    by simp_all
  from use_degrades[OF fresh miss route m r f] run
  show "res = Inr ()" "sent w' = Some (200, ''text/html'', csr_shell template)"
    "filter is_next (new_events w w') = []"
    by auto
qed

theorem failure_routing_witness:
  "sent fresh_world = None \<and> \<not> bypass ex_req
   \<and> cache_miss no_manifest_env ex_req fresh_world
   \<and> manifest_json no_manifest_env = Inl (Error ''MODULE_NOT_FOUND'')
   \<and> sent (snd (use no_manifest_env ex_req fresh_world)) = None
   \<and> filter is_next (new_events fresh_world (snd (use no_manifest_env ex_req fresh_world))) =
        [NextError (Error ''MODULE_NOT_FOUND'')]
   \<and> cache_miss no_template_env ex_req fresh_world
   \<and> manifest_json no_template_env = Inr (JObject [])
   \<and> fst (resolve no_template_env (originalUrl ex_req) fresh_world) = Inl (Error ''ENOENT'')
   \<and> sent (snd (use no_template_env ex_req fresh_world)) = None
   \<and> filter is_next (new_events fresh_world (snd (use no_template_env ex_req fresh_world))) =
        [NextError (Error ''ENOENT'')]
   \<and> cache_miss no_prefetch_env ex_req fresh_world
   \<and> manifest_json no_prefetch_env = Inr (JObject [])
   \<and> fst (resolve no_prefetch_env (originalUrl ex_req) fresh_world) = Inr (ex_template, ok_render)
   \<and> getPrefetchData no_prefetch_env (originalUrl ex_req) = Inl (Error ''prefetch failed'')
   \<and> sent (snd (use no_prefetch_env ex_req fresh_world)) =
        Some (200, ''text/html'', csr_shell ex_template)
   \<and> filter is_next (new_events fresh_world (snd (use no_prefetch_env ex_req fresh_world))) = []"
proof -
  have fresh: "sent fresh_world = None" by (simp add: fresh_world_def)
  have route: "\<not> bypass ex_req"
    by (simp add: ex_req_def bypass_def startsWith_def includes_str_def)
  have miss: "cache_miss no_manifest_env ex_req fresh_world"
    "cache_miss no_template_env ex_req fresh_world"
    "cache_miss no_prefetch_env ex_req fresh_world"
    by (simp_all add: cache_miss_def env_defs)
  have m1: "manifest_json no_manifest_env = Inl (Error ''MODULE_NOT_FOUND'')"
    by (simp add: env_defs)
  have m2: "manifest_json no_template_env = Inr (JObject [])
      \<and> fst (resolve no_template_env (originalUrl ex_req) fresh_world) = Inl (Error ''ENOENT'')"
    by (simp add: env_defs resolve_def io_defs)
  have m3: "manifest_json no_prefetch_env = Inr (JObject [])
      \<and> fst (resolve no_prefetch_env (originalUrl ex_req) fresh_world) = Inr (ex_template, ok_render)
      \<and> (getPrefetchData no_prefetch_env (originalUrl ex_req) = Inl (Error ''prefetch failed'')
         \<or> (\<exists>pd. getPrefetchData no_prefetch_env (originalUrl ex_req) = Inr pd
               \<and> ok_render (originalUrl ex_req) pd (JObject []) = Inl (Error ''prefetch failed'')))"
    by (simp add: env_defs resolve_def io_defs)
  have pf: "getPrefetchData no_prefetch_env (originalUrl ex_req) = Inl (Error ''prefetch failed'')"
    by (simp add: env_defs)
  note T1 = failure_routing[OF surjective_pairing fresh miss(1) route,
      THEN conjunct1, rule_format, OF m1]
  note T2 = failure_routing[OF surjective_pairing fresh miss(2) route,
      THEN conjunct2, THEN conjunct1, rule_format, OF m2]
  note T3 = failure_routing[OF surjective_pairing fresh miss(3) route,
      THEN conjunct2, THEN conjunct2, rule_format, OF m3]
  from fresh route miss m1 m2 m3 pf T1 T2 T3 show ?thesis by simp
qed

text \<open>
  C5 as stated fails: when \<open>getPrefetchData\<close> rejects, the response is the degraded shell
  with status 200, the error is not passed to the next handler, and the render entry point
  was never called.
\<close>

theorem prefetch_rejection_degrades:
  "getPrefetchData no_prefetch_env (originalUrl ex_req) = Inl (Error ''prefetch failed'')
   \<and> sent (snd (use no_prefetch_env ex_req fresh_world)) =
        Some (200, ''text/html'', ''<html><head></head><body><!--preload-state--></body></html>'')
   \<and> filter is_next (trace (snd (use no_prefetch_env ex_req fresh_world))) = []
   \<and> filter is_render_call (trace (snd (use no_prefetch_env ex_req fresh_world))) = []"
  by (simp add: env_defs run_defs page_defs)

subsection \<open>C6: a cache hit\<close>

text \<open>
  C6, as the code has it: in production mode, when the lookup returns and the cache holds a
  non-empty page under \<open>ssr:\<close> followed by the original URL, the response is status 200,
  content type \<open>text/html\<close>, with the cached page as its body, and the run does nothing
  else: it reads the cache, logs the hit and sends.
\<close>

theorem cache_hit_served:
  assumes "isProd env" and "sent w = None"
    and "get_fails env (''ssr:'' @ originalUrl req) = None"
    and "map_of (cache w) (''ssr:'' @ originalUrl req) = Some (page, ttl)"
    and "page \<noteq> []"
  shows "use env req w =
           (Inr (), w\<lparr>sent := Some (200, ''text/html'', page),
                      trace := trace w @ [CacheGet (''ssr:'' @ originalUrl req), LogCacheHit,
                                          Send 200 ''text/html'' page]\<rparr>)"
  using assms unfolding use_def cacheManager_get_def res_send_def io_defs
  by (simp add: Let_def)

theorem cache_hit_served_witness:
  "isProd prod_env \<and> sent cached_world = None
   \<and> get_fails prod_env (''ssr:'' @ originalUrl ex_req) = None
   \<and> map_of (cache cached_world) (''ssr:'' @ originalUrl ex_req) = Some (''<p>cached</p>'', 86400000)
   \<and> ''<p>cached</p>'' \<noteq> []
   \<and> use prod_env ex_req cached_world =
       (Inr (), cached_world\<lparr>sent := Some (200, ''text/html'', ''<p>cached</p>''),
          trace := [CacheGet ''ssr:/a?x=1'', LogCacheHit, Send 200 ''text/html'' ''<p>cached</p>'']\<rparr>)"
  using cache_hit_served[of prod_env cached_world ex_req "''<p>cached</p>''" 86400000]
  by (simp add: env_defs)

text \<open>
  C6 as stated fails for an entry whose value is the empty string: line 30 tests
  \<open>if (cachedPage)\<close>, so the request is rendered again and the body sent is not the cached
  value.
\<close>

theorem empty_cached_page_is_rendered_again:
  "isProd prod_env
   \<and> map_of (cache empty_page_world) (''ssr:'' @ originalUrl ex_req) = Some ([], 86400000)
   \<and> filter is_render_call (trace (snd (use prod_env ex_req empty_page_world))) =
       [Render ''/a?x=1'' JNull (JObject [])]
   \<and> sent (snd (use prod_env ex_req empty_page_world)) =
       Some (200, ''text/html'', assemble ex_template ex_result)
   \<and> assemble ex_template ex_result \<noteq> []"
  by (simp add: env_defs run_defs assemble_example)

subsection \<open>C7: the cache write\<close>

text \<open>
  C7, as the code has it: for every request in production mode whose render succeeds, the
  page is sent with status 200, and the run then asks the cache exactly once to store that
  same page under \<open>ssr:\<close> followed by the original URL with a time to live of 86400000
  milliseconds; the request to store it comes right after the response. When the store
  accepts the write, the cache holds that entry afterwards.
\<close>

theorem successful_render_is_cached_once:
  assumes run: "use env req w = (res, w')"
    and fresh: "sent w = None"
    and prod: "isProd env"
    and miss: "cache_miss env req w"
    and route: "\<not> bypass req"
    and manifest: "manifest_json env = Inr manifest"
    and resolved: "fst (resolve env (originalUrl req) w) = Inr (template, render)"
    and prefetch: "getPrefetchData env (originalUrl req) = Inr pd"
    and renders: "render (originalUrl req) pd manifest = Inr r"
  shows "sent w' = Some (200, ''text/html'', assemble template r)
       \<and> filter is_cache_write (new_events w w') =
           [CacheSet (''ssr:'' @ originalUrl req) (assemble template r) 86400000]
       \<and> (\<exists>pre post. new_events w w' =
             pre @ Send 200 ''text/html'' (assemble template r)
                 # CacheSet (''ssr:'' @ originalUrl req) (assemble template r) 86400000 # post)
       \<and> (set_fails env (''ssr:'' @ originalUrl req) = None \<longrightarrow>
             res = Inr ()
             \<and> cache w' =
                 AList.update (''ssr:'' @ originalUrl req) (assemble template r, 86400000) (cache w)
             \<and> map_of (cache w') (''ssr:'' @ originalUrl req) =
                 Some (assemble template r, 86400000))"
proof -
  let ?url = "originalUrl req" and ?key = "''ssr:'' @ originalUrl req"
  let ?page = "assemble template r"
  from use_reaches_render_page[OF miss route manifest resolved] obtain w0 evs where
    U: "use env req w =
          try_catch (render_page env ?url ?key template render manifest) (pass_error env) w0"
    and E: "cache w0 = cache w" "sent w0 = sent w" "trace w0 = trace w @ evs"
       "\<forall>e\<in>set evs. \<not> is_cache_write e \<and> \<not> is_render_call e
                \<and> \<not> is_response e \<and> \<not> is_next e"
    by blast
  have s0: "sent w0 = None" using E fresh by simp
  have f: "filter is_cache_write evs = []"
    using E(4) by (simp add: filter_empty_conv)
  note R = render_page_render_succeeds[where render = render and w = w0 and env = env
      and pd = pd and manifest = manifest and r = r and template = template and key = "?key",
      OF s0 prefetch renders]
  let ?pre = "evs @ [GetPrefetchData ?url, Render ?url pd manifest]"
  show ?thesis
  proof (cases "set_fails env ?key")
    case None
    with U R prod run have w': "res = Inr ()"
      "w' = w0\<lparr>cache := AList.update ?key (?page, 86400000) (cache w0),
                   sent := Some (200, ''text/html'', ?page),
                   trace := trace w0 @ [GetPrefetchData ?url, Render ?url pd manifest,
                              Send 200 ''text/html'' ?page, CacheSet ?key ?page 86400000]\<rparr>"
      by (simp_all add: try_catch_def)
    have ev: "new_events w w' = ?pre @ Send 200 ''text/html'' ?page
                 # CacheSet ?key ?page 86400000 # []"
      using w' E(3) by simp
    have "map_of (cache w') ?key = Some (?page, 86400000)"
      using w' by (simp add: update_conv')
    with w' ev E(1) f None show ?thesis by (simp del: append_assoc) blast
  next
    case (Some e)
    let ?hs = "Error ''ERR_HTTP_HEADERS_SENT''"
    let ?post = "[LogRenderError e, LogMiddlewareError ?hs, NextError ?hs]"
    from Some U R prod run have w':
      "w' = w0\<lparr>sent := Some (200, ''text/html'', ?page),
                   trace := trace w0 @ [GetPrefetchData ?url, Render ?url pd manifest,
                              Send 200 ''text/html'' ?page, CacheSet ?key ?page 86400000]
                              @ ?post\<rparr>"
      by (simp add: try_catch_def pass_error_result)
    have ev: "new_events w w' = ?pre @ Send 200 ''text/html'' ?page
                 # CacheSet ?key ?page 86400000 # ?post"
      using w' E(3) by simp
    with w' f Some show ?thesis by (simp del: append_assoc) blast
  qed
qed

theorem successful_render_is_cached_once_witness:
  "use prod_env ex_req fresh_world = (Inr (), snd (use prod_env ex_req fresh_world))
   \<and> sent fresh_world = None \<and> isProd prod_env \<and> cache_miss prod_env ex_req fresh_world
   \<and> \<not> bypass ex_req \<and> manifest_json prod_env = Inr (JObject [])
   \<and> fst (resolve prod_env (originalUrl ex_req) fresh_world) = Inr (ex_template, ok_render)
   \<and> getPrefetchData prod_env (originalUrl ex_req) = Inr JNull
   \<and> ok_render (originalUrl ex_req) JNull (JObject []) = Inr ex_result
   \<and> set_fails prod_env (''ssr:'' @ originalUrl ex_req) = None
   \<and> sent (snd (use prod_env ex_req fresh_world)) =
        Some (200, ''text/html'', assemble ex_template ex_result)
   \<and> cache (snd (use prod_env ex_req fresh_world)) =
        [(''ssr:/a?x=1'', assemble ex_template ex_result, 86400000)]"
  using successful_render_is_cached_once[of prod_env ex_req fresh_world "Inr ()"
      "snd (use prod_env ex_req fresh_world)" "JObject []" ex_template ok_render
      JNull ex_result]
  by (simp add: env_defs run_defs)

text \<open>
  C7 as stated fails when the store rejects the write: in production mode the render of
  \<open>/a?x=1\<close> succeeds and the page is sent, the one request to store it is made, and the
  cache holds no entry under \<open>ssr:/a?x=1\<close> afterwards.
\<close>

theorem rejected_cache_write_leaves_no_entry:
  "isProd set_down_env \<and> sent fresh_world = None
   \<and> cache_miss set_down_env ex_req fresh_world \<and> \<not> bypass ex_req
   \<and> manifest_json set_down_env = Inr (JObject [])
   \<and> fst (resolve set_down_env (originalUrl ex_req) fresh_world) = Inr (ex_template, ok_render)
   \<and> getPrefetchData set_down_env (originalUrl ex_req) = Inr JNull
   \<and> ok_render (originalUrl ex_req) JNull (JObject []) = Inr ex_result
   \<and> set_fails set_down_env (''ssr:'' @ originalUrl ex_req) = Some (Error ''ECONNRESET'')
   \<and> sent (snd (use set_down_env ex_req fresh_world)) =
        Some (200, ''text/html'', assemble ex_template ex_result)
   \<and> filter is_cache_write (trace (snd (use set_down_env ex_req fresh_world))) =
        [CacheSet ''ssr:/a?x=1'' (assemble ex_template ex_result) 86400000]
   \<and> map_of (cache (snd (use set_down_env ex_req fresh_world))) ''ssr:/a?x=1'' = None
   \<and> cache (snd (use set_down_env ex_req fresh_world)) = []"
  by (simp add: env_defs run_defs)

subsection \<open>C8: the concrete page\<close>

text \<open>
  C8, as the code has it: for the template and the render result of the scenario, the
  assembled page has \<open><div>A</div>\<close> directly followed by the preload-state script, and
  has none of the markers \<open><!--preload-links-->\<close>, \<open><html>\<close>, \<open><body>\<close>,
  \<open><!--ssr-outlet-->\<close> and \<open><!--preload-state-->\<close>. The sixth marker, \<open></head>\<close>, is
  written back by its own replacement.
\<close>

theorem assembled_page_example:
  \<open>assemble ex_template ex_result =
     ''<html ><head></head><body ><div>A</div><script>window.__PRELOAD_STATE__ = {"x":1}</script></body></html>''
   \<and> split_at_first ''<div>A</div><script>window.__PRELOAD_STATE__ = {"x":1}</script>''
         (assemble ex_template ex_result) =
       Some (''<html ><head></head><body >'', ''</body></html>'')
   \<and> \<not> includes_str (assemble ex_template ex_result) ''<!--preload-links-->''
   \<and> \<not> includes_str (assemble ex_template ex_result) ''<html>''
   \<and> \<not> includes_str (assemble ex_template ex_result) ''<body>''
   \<and> \<not> includes_str (assemble ex_template ex_result) ''<!--ssr-outlet-->''
   \<and> \<not> includes_str (assemble ex_template ex_result) ''<!--preload-state-->''\<close>
  unfolding assemble_example by (simp add: includes_str_def)

text \<open>
  C8 as stated fails: \<open></head>\<close> is one of the six markers, and the assembled page has it.
\<close>

theorem assembled_page_keeps_head_marker:
  "''</head>'' \<in> set markers \<and> includes_str (assemble ex_template ex_result) ''</head>''"
  unfolding assemble_example by (simp add: includes_str_def markers_def)

subsection \<open>C9: clearing the cache\<close>




subsection \<open>C10: the markers of the degraded shell\<close>

text \<open>
  C10: when the render entry point rejects, the body of the 200 response is the template
  with only the first \<open><!--ssr-outlet-->\<close> taken out, and every occurrence in the template
  of one of the other five markers is still in the body, at the same distance from the
  start or from the end.
\<close>

theorem degraded_shell_keeps_other_markers:
  assumes run: "use env req w = (res, w')"
    and fresh: "sent w = None"
    and miss: "cache_miss env req w"
    and route: "\<not> bypass req"
    and manifest: "manifest_json env = Inr manifest"
    and resolved: "fst (resolve env (originalUrl req) w) = Inr (template, render)"
    and prefetch: "getPrefetchData env (originalUrl req) = Inr pd"
    and rejects: "render (originalUrl req) pd manifest = Inl e"
  shows "sent w' = Some (200, ''text/html'', csr_shell template)
       \<and> (case split_at_first ''<!--ssr-outlet-->'' template of
            None \<Rightarrow> csr_shell template = template
          | Some (b, a) \<Rightarrow>
              template = b @ ''<!--ssr-outlet-->'' @ a \<and> csr_shell template = b @ a
              \<and> (\<forall>p q. template = p @ ''<!--ssr-outlet-->'' @ q \<longrightarrow> length b \<le> length p))
       \<and> (\<forall>m\<in>set other_markers. \<forall>p q. template = p @ m @ q \<longrightarrow>
             (\<exists>r. csr_shell template = p @ m @ r) \<or> (\<exists>r. csr_shell template = r @ m @ q))"
proof -
  from prefetch rejects have
    "getPrefetchData env (originalUrl req) = Inl e \<or>
       (\<exists>pd. getPrefetchData env (originalUrl req) = Inr pd
             \<and> render (originalUrl req) pd manifest = Inl e)"
    by blast
  from use_degrades[OF fresh miss route manifest resolved this] run
  have body: "sent w' = Some (200, ''text/html'', csr_shell template)" by auto
  have first: "case split_at_first ''<!--ssr-outlet-->'' template of
            None \<Rightarrow> csr_shell template = template
          | Some (b, a) \<Rightarrow>
              template = b @ ''<!--ssr-outlet-->'' @ a \<and> csr_shell template = b @ a
              \<and> (\<forall>p q. template = p @ ''<!--ssr-outlet-->'' @ q \<longrightarrow> length b \<le> length p)"
  proof (cases "split_at_first ''<!--ssr-outlet-->'' template")
    case None
    then show ?thesis by (simp add: csr_shell_split)
  next
    case (Some ba)
    obtain b a where "ba = (b, a)" by (cases ba)
    with Some have S: "split_at_first ''<!--ssr-outlet-->'' template = Some (b, a)" by simp
    have t: "template = b @ ''<!--ssr-outlet-->'' @ a" by (rule split_at_first_Some[OF S])
    have shell: "csr_shell template = b @ a" using S by (simp add: csr_shell_split)
    have lm: "\<forall>p q. template = p @ ''<!--ssr-outlet-->'' @ q \<longrightarrow> length b \<le> length p"
      using split_at_first_leftmost[OF S] by blast
    from t shell lm show ?thesis unfolding S option.case prod.case by blast
  qed
  from body first csr_shell_keeps show ?thesis by blast
qed

theorem degraded_shell_keeps_other_markers_witness:
  "use full_template_env ex_req fresh_world =
     (Inr (), snd (use full_template_env ex_req fresh_world))
   \<and> sent fresh_world = None \<and> cache_miss full_template_env ex_req fresh_world
   \<and> \<not> bypass ex_req \<and> manifest_json full_template_env = Inr (JObject [])
   \<and> fst (resolve full_template_env (originalUrl ex_req) fresh_world) =
        Inr (full_template, failing_render)
   \<and> getPrefetchData full_template_env (originalUrl ex_req) = Inr JNull
   \<and> failing_render (originalUrl ex_req) JNull (JObject []) = Inl (Error ''render failed'')
   \<and> sent (snd (use full_template_env ex_req fresh_world)) =
        Some (200, ''text/html'', csr_shell full_template)
   \<and> csr_shell full_template =
        ''<html><head><!--preload-links--></head><body><!--preload-state--><!--ssr-outlet--></body></html>''"
  using degraded_shell_keeps_other_markers[of full_template_env ex_req fresh_world "Inr ()"
      "snd (use full_template_env ex_req fresh_world)" "JObject []" full_template
      failing_render JNull "Error ''render failed''"]
  by (simp add: env_defs run_defs page_defs)

end
